theory Spec2Isabelle
  imports Main
begin

section \<open>Strings of the scan workflow\<close>

text \<open>
  The scan workflow of the kiosk front end (\<^verbatim>\<open>static/scan.js\<close>) is embedded here.
  A JavaScript string is modelled as a \<^typ>\<open>string\<close>: each \<^typ>\<open>char\<close> stands for one
  code unit in the range 0..255. \<^verbatim>\<open>String.prototype.trim\<close> removes the code units of
  ECMAScript's WhiteSpace and LineTerminator productions; in this range they are TAB, LF,
  VT, FF, CR, SPACE and NO-BREAK SPACE.
\<close>

definition js_whitespace :: "char \<Rightarrow> bool" where
  "js_whitespace c =
     (c = CHR 0x09 \<or> c = CHR 0x0A \<or> c = CHR 0x0B \<or> c = CHR 0x0C \<or> c = CHR 0x0D
      \<or> c = CHR 0x20 \<or> c = CHR 0xA0)"

definition trim :: "string \<Rightarrow> string" where
  "trim s = rev (dropWhile js_whitespace (rev (dropWhile js_whitespace s)))"

text \<open>\<^verbatim>\<open>s.split(sep)\<close> for a separator of one code unit: the empty string splits into one
  empty piece, and \<open>n\<close> separators give \<open>n + 1\<close> pieces.\<close>

fun split :: "char \<Rightarrow> string \<Rightarrow> string list" where
  "split sep [] = [[]]"
| "split sep (c # cs) =
     (if c = sep then [] # split sep cs
      else (case split sep cs of
              [] \<Rightarrow> [[c]]
            | p # ps \<Rightarrow> (c # p) # ps))"

definition startsWith :: "string \<Rightarrow> string \<Rightarrow> bool" where
  "startsWith s p = (take (length p) s = p)"

text \<open>\<^verbatim>\<open>s.substring(start)\<close>: a start beyond the end is clamped to the length.\<close>

definition substring :: "string \<Rightarrow> nat \<Rightarrow> string" where
  "substring s start = drop start s"

section \<open>Cookies\<close>

text \<open>
  \<^verbatim>\<open>setCookie\<close> assigns one string to \<^verbatim>\<open>document.cookie\<close>; the model returns that string.
  The clock (\<^verbatim>\<open>new Date().getTime()\<close>, in milliseconds) and \<^verbatim>\<open>Date.prototype.toUTCString\<close>
  belong to the browser and are parameters. \<^verbatim>\<open>getCookie\<close> reads \<^verbatim>\<open>document.cookie\<close>, which
  is its second argument here; \<^verbatim>\<open>null\<close> is \<^const>\<open>None\<close>.
\<close>

definition setCookie :: "int \<Rightarrow> (int \<Rightarrow> string) \<Rightarrow> string \<Rightarrow> string \<Rightarrow> int \<Rightarrow> string" where
  "setCookie getTime toUTCString name value days =
     (let d = getTime + days * 24 * 60 * 60 * 1000
      in name @ ''='' @ value @ '';expires='' @ toUTCString d @ '';path=/'')"

fun getCookie_loop :: "string \<Rightarrow> string list \<Rightarrow> string option" where
  "getCookie_loop name [] = None"
| "getCookie_loop name (c # cookies) =
     (let cookie = trim c
      in if startsWith cookie (name @ ''='')
         then Some (substring cookie (length name + 1))
         else getCookie_loop name cookies)"

definition getCookie :: "string \<Rightarrow> string \<Rightarrow> string option" where
  "getCookie name document_cookie = getCookie_loop name (split CHR '';'' document_cookie)"

section \<open>JavaScript values\<close>

text \<open>
  Values whose truthiness the code tests. \<open>JNum\<close> holds the integral numbers only;
  \<open>JObject\<close> stands for any object or array (always truthy).
\<close>

datatype jsval = JUndefined | JNull | JBool bool | JNum int | JStr string | JObject

fun truthy :: "jsval \<Rightarrow> bool" where
  "truthy JUndefined = False"
| "truthy JNull = False"
| "truthy (JBool b) = b"
| "truthy (JNum n) = (n \<noteq> 0)"
| "truthy (JStr s) = (s \<noteq> [])"
| "truthy JObject = True"

text \<open>\<^verbatim>\<open>a || b\<close>\<close>

definition js_or :: "jsval \<Rightarrow> jsval \<Rightarrow> jsval" where
  "js_or a b = (if truthy a then a else b)"

text \<open>A parsed JSON object as its list of properties; reading an absent property gives
  \<^verbatim>\<open>undefined\<close>.\<close>

type_synonym jsobject = "(string \<times> jsval) list"

definition get_prop :: "jsobject \<Rightarrow> string \<Rightarrow> jsval" where
  "get_prop obj key = (case map_of obj key of None \<Rightarrow> JUndefined | Some v \<Rightarrow> v)"

datatype js_error = ReferenceError string | TypeError

text \<open>What \<^verbatim>\<open>${err}\<close> prints for a thrown \<^verbatim>\<open>ReferenceError\<close> (the wording of V8 and
  SpiderMonkey).\<close>

definition ReferenceError_text :: "string \<Rightarrow> string" where
  "ReferenceError_text ident = ''ReferenceError: '' @ ident @ '' is not defined''"

text \<open>\<^verbatim>\<open>`${n}`\<close> for a natural number: its decimal digits.\<close>

function decimal :: "nat \<Rightarrow> string" where
  "decimal n =
     (if n < 10 then [''0123456789'' ! n]
      else decimal (n div 10) @ [''0123456789'' ! (n mod 10)])"
  by pat_completeness auto
termination
  by (relation "measure id") auto

declare decimal.simps [simp del]

section \<open>Events\<close>

text \<open>
  A run of a handler is described by the list of what happens, in order: the calls the code
  makes on its collaborators (DOM, cookie store, scanner library, jQuery, router,
  notification sinks) and, between them, the completions the browser delivers (a promise
  settles, a script loads, a timer elapses), after which the matching callback of the source
  runs. A run holds the events of one call and of its callbacks: every pending completion
  is taken to arrive, and no other handler to run in between.
  \<^verbatim>\<open>startScan\<close>, \<^verbatim>\<open>sendRewardMessageToCustomersPage\<close>, \<^verbatim>\<open>sendMessageToCustomersPage\<close>
  and \<^verbatim>\<open>navigateTo\<close> are collaborators and appear as events.
\<close>

datatype payload = JSON_stringify "(string \<times> string) list"

datatype event =
    ConsoleLog string string
  | AppendScript string
  | ScriptLoaded
  | ScriptError
  | GetCameras
  | CamerasResolved
  | CamerasRejected
  | AppendOption string string
  | SetDropdownValue string
  | SetDocumentCookie string
  | AddChangeListener
  | NewHtml5Qrcode string
  | StartScan
  | Alert string
  | ScannerStop
  | StopResolved
  | StopRejected
  | AjaxGet string
  | GetSuccess
  | GetError
  | AjaxPost string string payload
  | PostSuccess
  | PostError
  | SendRewardMessage
  | SendMessage string
  | NavigateTo string
  | ErrorMessageShown jsval
  | SetTimeout nat
  | TimerElapsed
  | ErrorMessageFadeOut
  | Uncaught js_error

section \<open>Application state and the browser\<close>

text \<open>\<^verbatim>\<open>AppState\<close> of \<^verbatim>\<open>app.js\<close>. The scanner object is represented by the id of the
  element it was constructed on; \<^verbatim>\<open>null\<close> is \<^const>\<open>None\<close>.\<close>

record app_state =
  cameraInitialized :: bool
  html5QrcodeScanner :: "string option"
  deviceId :: "string option"

definition AppState :: app_state where
  "AppState = \<lparr>cameraInitialized = False, html5QrcodeScanner = None, deviceId = None\<rparr>"

record device =
  id' :: string
  label :: string

datatype script_outcome = ScriptLoads | ScriptFails

text \<open>\<^verbatim>\<open>Html5Qrcode.getCameras()\<close> resolves with a device list (\<^const>\<open>None\<close>: with
  \<^verbatim>\<open>undefined\<close> or \<^verbatim>\<open>null\<close>) or rejects with a reason, given by its string form.\<close>

datatype cameras_outcome = CamerasResolve "device list option" | CamerasReject string

text \<open>
  What \<^verbatim>\<open>initializeCamera\<close> reads from its surroundings. \<open>cameraId\<close> is the free
  identifier \<^verbatim>\<open>cameraId\<close> of \<^verbatim>\<open>scan.js\<close>, which neither \<^verbatim>\<open>scan.js\<close> nor \<^verbatim>\<open>app.js\<close>
  declares: \<^const>\<open>None\<close> when no binding exists (reading it throws a
  \<^verbatim>\<open>ReferenceError\<close>), otherwise the string form of the bound value. The scan view is
  taken to contain the elements \<^verbatim>\<open>cameraDropdown\<close> and \<^verbatim>\<open>qr-reader\<close>.
\<close>

record browser =
  document_cookie :: string
  cameraId :: "string option"
  getTime :: int
  toUTCString :: "int \<Rightarrow> string"
  script_result :: script_outcome
  getCameras_result :: cameras_outcome

section \<open>initializeCamera\<close>

text \<open>The \<^verbatim>\<open>devices.forEach\<close> loop that fills the dropdown.\<close>

fun populate :: "nat \<Rightarrow> device list \<Rightarrow> event list" where
  "populate index [] = []"
| "populate index (device # devices) =
     AppendOption (id' device)
       (if label device \<noteq> [] then label device else ''Camera '' @ decimal (index + 1))
     # populate (index + 1) devices"

text \<open>The callback of \<^verbatim>\<open>getCameras().then\<close>. An exception thrown in it rejects the promise
  and reaches the \<^verbatim>\<open>catch\<close> handler, which alerts.\<close>

definition getCameras_then :: "browser \<Rightarrow> app_state \<Rightarrow> device list option \<Rightarrow> app_state \<times> event list" where
  "getCameras_then env st devices_opt =
     (case devices_opt of
        None \<Rightarrow> (st, [])
      | Some [] \<Rightarrow> (st, [])
      | Some (first # others) \<Rightarrow>
          (let devices = first # others;
               savedCameraId = getCookie ''selectedCamera'' (document_cookie env);
               options = populate 0 devices;
               selected =
                 (case savedCameraId of
                    None \<Rightarrow> id' first
                  | Some saved \<Rightarrow>
                      if saved \<noteq> [] \<and> list_ex (\<lambda>d. id' d = saved) devices
                      then saved else id' first);
               st1 = st\<lparr>deviceId := Some selected\<rparr>
           in case cameraId env of
                None \<Rightarrow>
                  (st1, options @
                     [SetDropdownValue selected,
                      Alert (''Camera initialization error: '' @ ReferenceError_text ''cameraId'')])
              | Some c \<Rightarrow>
                  (st1\<lparr>html5QrcodeScanner := Some ''qr-reader'', cameraInitialized := True\<rparr>,
                   options @
                     [SetDropdownValue selected,
                      SetDocumentCookie
                        (setCookie (getTime env) (toUTCString env) ''selectedCamera'' c 30),
                      AddChangeListener,
                      NewHtml5Qrcode ''qr-reader'',
                      StartScan])))"

definition initializeCamera :: "browser \<Rightarrow> app_state \<Rightarrow> app_state \<times> event list" where
  "initializeCamera env st =
     (if \<not> cameraInitialized st then
        (case script_result env of
           ScriptFails \<Rightarrow>
             (st, [AppendScript ''https://unpkg.com/html5-qrcode'', ScriptError,
                   Alert ''Failed to load QR scanner library. Please try again later.''])
         | ScriptLoads \<Rightarrow>
             (case getCameras_result env of
                CamerasReject err \<Rightarrow>
                  (st, [AppendScript ''https://unpkg.com/html5-qrcode'', ScriptLoaded,
                        GetCameras, CamerasRejected,
                        Alert (''Camera initialization error: '' @ err)])
              | CamerasResolve devices \<Rightarrow>
                  (let r = getCameras_then env st devices
                   in (fst r,
                       [AppendScript ''https://unpkg.com/html5-qrcode'', ScriptLoaded,
                        GetCameras, CamerasResolved] @ snd r))))
      else (st, [StartScan]))"

text \<open>The \<^verbatim>\<open>change\<close> listener of the dropdown; \<open>target_value\<close> is
  \<^verbatim>\<open>event.target.value\<close>. An exception thrown here is uncaught.\<close>

definition dropdown_change :: "browser \<Rightarrow> app_state \<Rightarrow> string \<Rightarrow> app_state \<times> event list" where
  "dropdown_change env st target_value =
     (let st1 = st\<lparr>deviceId := Some target_value\<rparr>
      in case cameraId env of
           None \<Rightarrow> (st1, [Uncaught (ReferenceError ''cameraId'')])
         | Some c \<Rightarrow>
             (st1, [SetDocumentCookie
                      (setCookie (getTime env) (toUTCString env) ''selectedCamera'' c 30)]))"

section \<open>handleScan\<close>

text \<open>
  The responses of the backend: the failed request as jQuery hands it to the \<^verbatim>\<open>error\<close>
  callback (\<open>responseJSON\<close> is \<^const>\<open>None\<close> when the body was not a JSON object), the
  reward lookup's body and the check-in's body.
\<close>

record xhr =
  responseJSON :: "jsobject option"
  responseText :: jsval

record reward_response =
  reward_due :: jsval

record customer_record =
  name :: string
  last_name :: string

record add_response =
  customer :: customer_record

datatype stop_outcome = StopResolves | StopRejects string

record network =
  stop_result :: stop_outcome
  lookup_result :: "xhr + reward_response"
  add_result :: "xhr + add_response"

text \<open>\<^verbatim>\<open>xhr.responseJSON?.details\<close>\<close>

definition responseJSON_details :: "xhr \<Rightarrow> jsval" where
  "responseJSON_details x =
     (case responseJSON x of None \<Rightarrow> JUndefined | Some obj \<Rightarrow> get_prop obj ''details'')"

text \<open>\<^verbatim>\<open>xhr.responseJSON?.details || xhr.responseText || "Errore generico"\<close>\<close>

definition errorMessage :: "xhr \<Rightarrow> jsval" where
  "errorMessage x =
     js_or (js_or (responseJSON_details x) (responseText x)) (JStr ''Errore generico'')"

text \<open>Both \<^verbatim>\<open>error\<close> callbacks have the same body.\<close>

definition ajax_error :: "xhr \<Rightarrow> event list" where
  "ajax_error x =
     [ErrorMessageShown (errorMessage x), SetTimeout 1000,
      TimerElapsed, ErrorMessageFadeOut, StartScan]"

text \<open>The \<^verbatim>\<open>success\<close> callback of the check-in request. In the template literal of the
  source only \<^verbatim>\<open>${responseAdd.customer.last_name}\<close> is a substitution; the text before it,
  \<^verbatim>\<open>$Check in di {responseAdd.customer.name}\<close>, is literal.\<close>

definition add_success :: "reward_response \<Rightarrow> add_response \<Rightarrow> event list" where
  "add_success responseReward responseAdd =
     (if truthy (reward_due responseReward) then [SendRewardMessage] else []) @
     [SendMessage (''$Check in di {responseAdd.customer.name} ''
                   @ last_name (customer responseAdd) @ '' riuscito!''),
      NavigateTo ''customers'']"

definition handleScan :: "network \<Rightarrow> app_state \<Rightarrow> string \<Rightarrow> event list" where
  "handleScan env st decodedText =
     ConsoleLog ''Scanned QR Code:'' decodedText #
     (case html5QrcodeScanner st of
        None \<Rightarrow> [Uncaught TypeError]
      | Some scanner \<Rightarrow>
          ScannerStop #
          (case stop_result env of
             StopRejects err \<Rightarrow> [StopRejected, Alert (''Failed to stop scanner: '' @ err)]
           | StopResolves \<Rightarrow>
               StopResolved # AjaxGet (''accesses/reward_due_qr/'' @ decodedText) #
               (case lookup_result env of
                  Inl x \<Rightarrow> GetError # ajax_error x
                | Inr responseReward \<Rightarrow>
                    GetSuccess #
                    AjaxPost ''accesses/add'' ''application/json''
                      (JSON_stringify [(''qr_code'', decodedText)]) #
                    (case add_result env of
                       Inl x \<Rightarrow> PostError # ajax_error x
                     | Inr responseAdd \<Rightarrow>
                         PostSuccess # add_success responseReward responseAdd))))"

section \<open>Observations on event lists\<close>

fun is_AjaxGet :: "event \<Rightarrow> bool" where
  "is_AjaxGet (AjaxGet u) = True"
| "is_AjaxGet e = False"

fun is_AjaxPost :: "event \<Rightarrow> bool" where
  "is_AjaxPost (AjaxPost u c d) = True"
| "is_AjaxPost e = False"

fun is_NavigateTo :: "event \<Rightarrow> bool" where
  "is_NavigateTo (NavigateTo p) = True"
| "is_NavigateTo e = False"

fun is_Alert :: "event \<Rightarrow> bool" where
  "is_Alert (Alert m) = True"
| "is_Alert e = False"

fun is_SetDocumentCookie :: "event \<Rightarrow> bool" where
  "is_SetDocumentCookie (SetDocumentCookie c) = True"
| "is_SetDocumentCookie e = False"

fun is_NewHtml5Qrcode :: "event \<Rightarrow> bool" where
  "is_NewHtml5Qrcode (NewHtml5Qrcode target) = True"
| "is_NewHtml5Qrcode e = False"

text \<open>\<^verbatim>\<open>s.includes(part)\<close>\<close>

fun includes_str :: "string \<Rightarrow> string \<Rightarrow> bool" where
  "includes_str [] part = (part = [])"
| "includes_str (c # cs) part = (startsWith (c # cs) part \<or> includes_str cs part)"

text \<open>Calls of \<^verbatim>\<open>initializeCamera\<close> one after the other, each with what the browser answers
  to it; a call has run its callbacks before the next one starts.\<close>

fun initializeCamera_calls :: "browser list \<Rightarrow> app_state \<Rightarrow> app_state \<times> event list" where
  "initializeCamera_calls [] st = (st, [])"
| "initializeCamera_calls (env # envs) st =
     (let r1 = initializeCamera env st;
          r2 = initializeCamera_calls envs (fst r1)
      in (fst r2, snd r1 @ snd r2))"

section \<open>Inputs of the scenarios\<close>

definition scan_ready :: app_state where
  "scan_ready = \<lparr>cameraInitialized = True, html5QrcodeScanner = Some ''qr-reader'',
                  deviceId = Some ''cam1''\<rparr>"

definition not_found :: xhr where
  \<open>not_found = \<lparr>responseJSON = Some [(''details'', JStr ''not found'')],
                 responseText = JStr ''{"details":"not found"}''\<rparr>\<close>

definition empty_details :: xhr where
  \<open>empty_details = \<lparr>responseJSON = Some [(''details'', JStr [])],
                     responseText = JStr ''{"details":""}''\<rparr>\<close>

definition mario :: add_response where
  "mario = \<lparr>customer = \<lparr>name = ''Mario'', last_name = ''Rossi''\<rparr>\<rparr>"

definition checkin_ok :: network where
  "checkin_ok = \<lparr>stop_result = StopResolves,
                  lookup_result = Inr \<lparr>reward_due = JBool False\<rparr>,
                  add_result = Inr mario\<rparr>"

definition lookup_fails :: network where
  "lookup_fails = \<lparr>stop_result = StopResolves,
                    lookup_result = Inl not_found,
                    add_result = Inr mario\<rparr>"

definition submit_fails :: network where
  "submit_fails = \<lparr>stop_result = StopResolves,
                    lookup_result = Inr \<lparr>reward_due = JBool True\<rparr>,
                    add_result = Inl not_found\<rparr>"

definition stop_fails :: network where
  "stop_fails = \<lparr>stop_result = StopRejects ''NotAllowedError'',
                  lookup_result = Inr \<lparr>reward_due = JBool True\<rparr>,
                  add_result = Inr mario\<rparr>"

text \<open>A clock at the epoch and the date string of thirty days later.\<close>

definition utc_30_days :: "int \<Rightarrow> string" where
  "utc_30_days d = ''Sat, 31 Jan 1970 00:00:00 GMT''"

definition two_cameras :: "device list" where
  "two_cameras = [\<lparr>id' = ''cam1'', label = ''Front''\<rparr>, \<lparr>id' = ''cam2'', label = []\<rparr>]"

definition first_visit :: browser where
  "first_visit = \<lparr>document_cookie = [], cameraId = None, getTime = 0,
                   toUTCString = utc_30_days, script_result = ScriptLoads,
                   getCameras_result = CamerasResolve (Some two_cameras)\<rparr>"

text \<open>The same visit when some other script has bound \<^verbatim>\<open>cameraId\<close>.\<close>

definition bound_cameraId :: browser where
  "bound_cameraId = first_visit\<lparr>cameraId := Some ''old''\<rparr>"

definition saved_cam2 :: browser where
  "saved_cam2 = first_visit\<lparr>document_cookie := ''theme=dark; selectedCamera=cam2''\<rparr>"

definition empty_saved_id :: browser where
  "empty_saved_id =
     first_visit\<lparr>document_cookie := ''selectedCamera='',
                  getCameras_result :=
                    CamerasResolve (Some [\<lparr>id' = ''cam1'', label = ''Front''\<rparr>,
                                          \<lparr>id' = [], label = ''Rear''\<rparr>])\<rparr>"

definition no_cameras :: browser where
  "no_cameras = first_visit\<lparr>getCameras_result := CamerasResolve (Some [])\<rparr>"

definition cameras_rejected :: browser where
  "cameras_rejected =
     first_visit\<lparr>getCameras_result :=
                    CamerasReject ''NotFoundError : Requested device not found''\<rparr>"

section \<open>Properties of the cookie functions\<close>

lemma split_append_sep:
  "sep \<notin> set a \<Longrightarrow> split sep (a @ sep # rest) = a # split sep rest"
  by (induction a) auto

lemma trim_unchanged:
  assumes "s \<noteq> []" "\<not> js_whitespace (hd s)" "\<not> js_whitespace (last s)"
  shows "trim s = s"
proof -
  have head_kept: "dropWhile js_whitespace s = s"
    using assms by (cases s) auto
  obtain ys y where s: "s = ys @ [y]"
    using assms(1) by (cases s rule: rev_cases) auto
  have tail_kept: "dropWhile js_whitespace (rev s) = rev s"
    using assms(3) by (simp add: s)
  show ?thesis by (simp add: trim_def head_kept tail_kept)
qed

lemma equals_sign_not_whitespace: "\<not> js_whitespace CHR ''=''"
  by (simp add: js_whitespace_def)

lemma getCookie_loop_None:
  "getCookie_loop nm cs = None \<longleftrightarrow> (\<forall>c \<in> set cs. \<not> startsWith (trim c) (nm @ ''=''))"
  by (induction cs) (auto simp: Let_def)

lemma getCookie_setCookie:
  assumes "CHR '';'' \<notin> set nm" "CHR '';'' \<notin> set v"
    and "nm = [] \<or> \<not> js_whitespace (hd nm)"
    and "v = [] \<or> \<not> js_whitespace (last v)"
  shows "getCookie nm (setCookie t utc nm v days) = Some v"
proof -
  let ?pair = "nm @ ''='' @ v"
  let ?rest = "''expires='' @ utc (t + days * 24 * 60 * 60 * 1000) @ '';path=/''"
  have pieces: "split CHR '';'' (setCookie t utc nm v days) = ?pair # split CHR '';'' ?rest"
    using assms(1,2) split_append_sep[of "CHR '';''" ?pair]
    by (simp add: setCookie_def Let_def)
  have "hd ?pair = (if nm = [] then CHR ''='' else hd nm)"
    by (cases nm) auto
  then have first: "\<not> js_whitespace (hd ?pair)"
    using assms(3) equals_sign_not_whitespace by auto
  have "last ?pair = (if v = [] then CHR ''='' else last v)"
    by auto
  then have final: "\<not> js_whitespace (last ?pair)"
    using assms(4) equals_sign_not_whitespace by auto
  have trimmed: "trim ?pair = ?pair"
    using first final by (intro trim_unchanged) auto
  show ?thesis
    unfolding getCookie_def pieces
    by (simp add: trimmed Let_def startsWith_def substring_def
          del: append_assoc append.simps)
qed

text \<open>
  Claim C10, as the code has it. \<^verbatim>\<open>getCookie\<close> trims every piece of the cookie string, so
  the round trip needs two conditions more than the absence of \<open>;\<close> and \<open>=\<close>: the name
  does not begin with a whitespace character and the value does not end with one. Then
  \<^verbatim>\<open>getCookie(name)\<close>, read on the string that \<^verbatim>\<open>setCookie(name, value, days)\<close> assigns to
  \<^verbatim>\<open>document.cookie\<close>, returns exactly \<open>value\<close>. And \<^verbatim>\<open>getCookie\<close> returns \<^verbatim>\<open>null\<close>
  exactly when no piece of the cookie string, trimmed, starts with \<open>name=\<close>.
\<close>

theorem getCookie_roundtrip_trimmed:
  "(CHR '';'' \<notin> set nm \<and> CHR ''='' \<notin> set nm \<and> CHR '';'' \<notin> set v \<and> CHR ''='' \<notin> set v
      \<and> 0 < days
      \<and> (nm = [] \<or> \<not> js_whitespace (hd nm)) \<and> (v = [] \<or> \<not> js_whitespace (last v))
    \<longrightarrow> getCookie nm (setCookie t utc nm v days) = Some v)
   \<and> (getCookie nm doc = None
        \<longleftrightarrow> (\<forall>c \<in> set (split CHR '';'' doc). \<not> startsWith (trim c) (nm @ ''='')))"
  using getCookie_setCookie[of nm v t utc days]
  by (simp add: getCookie_def getCookie_loop_None)

theorem getCookie_roundtrip_trimmed_witness:
  "getCookie ''selectedCamera''
     (setCookie 0 utc_30_days ''selectedCamera'' ''cam1'' 30)
     = Some ''cam1''
   \<and> getCookie ''selectedCamera'' ''theme=dark; lang=it'' = None"
  using getCookie_roundtrip_trimmed
    [of "''selectedCamera''" "''cam1''" 30 0 utc_30_days
        "''theme=dark; lang=it''"]
  by (simp add: js_whitespace_def trim_def startsWith_def)

text \<open>Claim C10 as stated fails: a value that ends with a space contains neither \<open>;\<close>
  nor \<open>=\<close>, and \<^verbatim>\<open>getCookie\<close> returns it without the space.\<close>

theorem getCookie_roundtrip_counterexample:
  "CHR '';'' \<notin> set ''k'' \<and> CHR ''='' \<notin> set ''k'' \<and> CHR '';'' \<notin> set ''v '' \<and> CHR ''='' \<notin> set ''v ''
   \<and> getCookie ''k'' (setCookie 0 utc_30_days ''k'' ''v '' 30)
       = Some ''v''
   \<and> getCookie ''k'' (setCookie 0 utc_30_days ''k'' ''v '' 30)
       \<noteq> Some ''v ''"
  by (simp add: getCookie_def setCookie_def trim_def js_whitespace_def startsWith_def
        substring_def)

section \<open>Properties of handleScan\<close>

lemma unique_occurrence:
  assumes "xs = a @ e # b" "P e" "\<forall>y \<in> set a. \<not> P y" "\<forall>y \<in> set b. \<not> P y"
    and "xs = pre @ e' # post" "P e'"
  shows "pre = a \<and> e' = e \<and> post = b"
  using assms
proof (induction a arbitrary: xs pre)
  case Nil
  then show ?case by (cases pre) auto
next
  case (Cons y a)
  then show ?case by (cases pre) auto
qed

lemma add_success_no_post: "\<forall>y \<in> set (add_success r a). \<not> is_AjaxPost y"
  by (simp add: add_success_def)

lemma ajax_error_no_post: "\<forall>y \<in> set (ajax_error x). \<not> is_AjaxPost y"
  by (simp add: ajax_error_def)

text \<open>The runs of \<^verbatim>\<open>handleScan\<close>, one per path through its callbacks.\<close>

lemma handleScan_cases:
  "handleScan env st txt =
     (case html5QrcodeScanner st of
        None \<Rightarrow> [ConsoleLog ''Scanned QR Code:'' txt, Uncaught TypeError]
      | Some q \<Rightarrow>
         (case stop_result env of
            StopRejects err \<Rightarrow>
              [ConsoleLog ''Scanned QR Code:'' txt, ScannerStop, StopRejected,
               Alert (''Failed to stop scanner: '' @ err)]
          | StopResolves \<Rightarrow>
             (case lookup_result env of
                Inl x \<Rightarrow>
                  [ConsoleLog ''Scanned QR Code:'' txt, ScannerStop, StopResolved,
                   AjaxGet (''accesses/reward_due_qr/'' @ txt), GetError] @ ajax_error x
              | Inr r \<Rightarrow>
                  [ConsoleLog ''Scanned QR Code:'' txt, ScannerStop, StopResolved,
                   AjaxGet (''accesses/reward_due_qr/'' @ txt), GetSuccess] @
                  AjaxPost ''accesses/add'' ''application/json''
                    (JSON_stringify [(''qr_code'', txt)]) #
                  (case add_result env of
                     Inl x \<Rightarrow> PostError # ajax_error x
                   | Inr a \<Rightarrow> PostSuccess # add_success r a))))"
  by (simp add: handleScan_def split: option.splits stop_outcome.splits sum.splits)

lemma handleScan_no_post_without_lookup:
  assumes "\<forall>r. lookup_result env \<noteq> Inr r"
  shows "\<forall>y \<in> set (handleScan env st txt). \<not> is_AjaxPost y"
  using assms
  by (auto simp: handleScan_cases ajax_error_def
        split: option.splits stop_outcome.splits sum.splits)

text \<open>
  Claim C2. Wherever a run of \<^verbatim>\<open>handleScan\<close> issues the check-in request
  (\<^verbatim>\<open>POST accesses/add\<close>), the reward lookup has succeeded, and the events just before the
  request are the lookup (\<^verbatim>\<open>GET accesses/reward_due_qr/{code}\<close>) and its success. When the
  lookup fails, the run issues no check-in request at all.
\<close>

theorem handleScan_post_after_lookup:
  "(handleScan env st txt = pre @ AjaxPost u ct body # post \<longrightarrow>
      (\<exists>r. lookup_result env = Inr r) \<and>
      (\<exists>a. pre = a @ [AjaxGet (''accesses/reward_due_qr/'' @ txt), GetSuccess]))
   \<and> ((\<exists>x. lookup_result env = Inl x) \<longrightarrow>
        (\<forall>u ct body. AjaxPost u ct body \<notin> set (handleScan env st txt)))"
proof (intro conjI impI)
  assume eq: "handleScan env st txt = pre @ AjaxPost u ct body # post"
  have "\<not> (\<forall>y \<in> set (handleScan env st txt). \<not> is_AjaxPost y)"
    by (simp add: eq)
  then obtain r where r: "lookup_result env = Inr r"
    using handleScan_no_post_without_lookup by blast
  then show "\<exists>r. lookup_result env = Inr r" by blast
  obtain q where q: "html5QrcodeScanner st = Some q"
    using eq by (cases "html5QrcodeScanner st") (auto simp: handleScan_cases Cons_eq_append_conv)
  have s: "stop_result env = StopResolves"
    using eq q by (cases "stop_result env") (auto simp: handleScan_cases Cons_eq_append_conv)
  let ?a = "[ConsoleLog ''Scanned QR Code:'' txt, ScannerStop, StopResolved,
             AjaxGet (''accesses/reward_due_qr/'' @ txt), GetSuccess]"
  let ?b = "(case add_result env of
               Inl x \<Rightarrow> PostError # ajax_error x
             | Inr a \<Rightarrow> PostSuccess # add_success r a)"
  have tr: "handleScan env st txt =
              ?a @ AjaxPost ''accesses/add'' ''application/json''
                     (JSON_stringify [(''qr_code'', txt)]) # ?b"
    by (simp add: handleScan_cases q s r)
  have nb: "\<forall>y \<in> set ?b. \<not> is_AjaxPost y"
    using add_success_no_post ajax_error_no_post by (auto split: sum.splits)
  have "pre = ?a"
    using unique_occurrence[OF tr _ _ nb eq] by simp
  then show "\<exists>a. pre = a @ [AjaxGet (''accesses/reward_due_qr/'' @ txt), GetSuccess]"
    by simp
next
  assume "\<exists>x. lookup_result env = Inl x"
  then have "\<forall>r. lookup_result env \<noteq> Inr r" by auto
  from handleScan_no_post_without_lookup[OF this]
  show "\<forall>u ct body. AjaxPost u ct body \<notin> set (handleScan env st txt)"
    by (metis is_AjaxPost.simps(1))
qed

theorem handleScan_post_after_lookup_witness:
  "handleScan checkin_ok scan_ready ''ABC123'' =
     [ConsoleLog ''Scanned QR Code:'' ''ABC123'', ScannerStop, StopResolved,
      AjaxGet ''accesses/reward_due_qr/ABC123'', GetSuccess]
     @ AjaxPost ''accesses/add'' ''application/json''
         (JSON_stringify [(''qr_code'', ''ABC123'')])
     # [PostSuccess,
        SendMessage ''$Check in di {responseAdd.customer.name} Rossi riuscito!'',
        NavigateTo ''customers'']
   \<and> (\<exists>r. lookup_result checkin_ok = Inr r)
   \<and> (\<exists>x. lookup_result lookup_fails = Inl x)
   \<and> (\<exists>a. [ConsoleLog ''Scanned QR Code:'' ''ABC123'', ScannerStop, StopResolved,
            AjaxGet ''accesses/reward_due_qr/ABC123'', GetSuccess]
           = a @ [AjaxGet ''accesses/reward_due_qr/ABC123'', GetSuccess])
   \<and> (\<forall>u ct body. AjaxPost u ct body \<notin> set (handleScan lookup_fails scan_ready ''XYZ''))"
  using handleScan_post_after_lookup
          [of checkin_ok scan_ready "''ABC123''"
              "[ConsoleLog ''Scanned QR Code:'' ''ABC123'', ScannerStop, StopResolved,
                AjaxGet ''accesses/reward_due_qr/ABC123'', GetSuccess]"
              "''accesses/add''" "''application/json''"
              "JSON_stringify [(''qr_code'', ''ABC123'')]"
              "[PostSuccess,
                SendMessage ''$Check in di {responseAdd.customer.name} Rossi riuscito!'',
                NavigateTo ''customers'']"]
        handleScan_post_after_lookup [of lookup_fails scan_ready "''XYZ''"]
  by (simp add: handleScan_def checkin_ok_def lookup_fails_def scan_ready_def mario_def
        add_success_def)

text \<open>
  Claim C4. In a run where the scanner was stopped and the lookup fails, or the lookup
  succeeds and the check-in request fails, the run ends with: the error message of the
  failed response is shown, a timer of 1000 ms is set, and when it elapses the message is
  faded out and \<^verbatim>\<open>startScan\<close> is called. The run never navigates, issues the lookup once
  and the check-in request at most once.
\<close>

theorem handleScan_failure_restarts:
  assumes "html5QrcodeScanner st = Some q" and "stop_result env = StopResolves"
    and "lookup_result env = Inl x \<or> (lookup_result env = Inr r \<and> add_result env = Inl x)"
  shows "(\<exists>pre. handleScan env st txt =
              pre @ [ErrorMessageShown (errorMessage x), SetTimeout 1000,
                     TimerElapsed, ErrorMessageFadeOut, StartScan])
         \<and> \<not> list_ex is_NavigateTo (handleScan env st txt)
         \<and> length (filter is_AjaxGet (handleScan env st txt)) = 1
         \<and> length (filter is_AjaxPost (handleScan env st txt)) \<le> 1"
  using assms by (auto simp: handleScan_cases ajax_error_def)

theorem handleScan_failure_restarts_witness:
  "handleScan lookup_fails scan_ready ''XYZ'' =
     [ConsoleLog ''Scanned QR Code:'' ''XYZ'', ScannerStop, StopResolved,
      AjaxGet ''accesses/reward_due_qr/XYZ'', GetError,
      ErrorMessageShown (JStr ''not found''), SetTimeout 1000,
      TimerElapsed, ErrorMessageFadeOut, StartScan]
   \<and> \<not> list_ex is_NavigateTo (handleScan lookup_fails scan_ready ''XYZ'')
   \<and> length (filter is_AjaxGet (handleScan submit_fails scan_ready ''XYZ'')) = 1
   \<and> length (filter is_AjaxPost (handleScan submit_fails scan_ready ''XYZ'')) \<le> 1"
  using handleScan_failure_restarts
          [of scan_ready "''qr-reader''" lookup_fails not_found
              "\<lparr>reward_due = JBool False\<rparr>" "''XYZ''"]
        handleScan_failure_restarts
          [of scan_ready "''qr-reader''" submit_fails not_found
              "\<lparr>reward_due = JBool True\<rparr>" "''XYZ''"]
  by (simp add: handleScan_def lookup_fails_def submit_fails_def scan_ready_def not_found_def
        ajax_error_def errorMessage_def responseJSON_details_def get_prop_def js_or_def)

text \<open>
  Claim C8. When the promise of \<^verbatim>\<open>html5QrcodeScanner.stop()\<close> rejects, the run consists of
  the log line, the call of \<^verbatim>\<open>stop\<close>, its rejection and the alert
  \<^verbatim>\<open>Failed to stop scanner: <reason>\<close>; neither the lookup nor the check-in request is issued.
\<close>

theorem handleScan_stop_failure:
  assumes "html5QrcodeScanner st = Some q" and "stop_result env = StopRejects err"
  shows "handleScan env st txt =
           [ConsoleLog ''Scanned QR Code:'' txt, ScannerStop, StopRejected,
            Alert (''Failed to stop scanner: '' @ err)]
         \<and> \<not> list_ex is_AjaxGet (handleScan env st txt)
         \<and> \<not> list_ex is_AjaxPost (handleScan env st txt)"
  using assms by (simp add: handleScan_cases)

theorem handleScan_stop_failure_witness:
  "handleScan stop_fails scan_ready ''XYZ'' =
     [ConsoleLog ''Scanned QR Code:'' ''XYZ'', ScannerStop, StopRejected,
      Alert ''Failed to stop scanner: NotAllowedError'']
   \<and> \<not> list_ex is_AjaxGet (handleScan stop_fails scan_ready ''XYZ'')
   \<and> \<not> list_ex is_AjaxPost (handleScan stop_fails scan_ready ''XYZ'')"
  using handleScan_stop_failure
          [of scan_ready "''qr-reader''" stop_fails "''NotAllowedError''" "''XYZ''"]
  by (simp add: stop_fails_def scan_ready_def)


section \<open>Properties of initializeCamera\<close>

lemma populate_no_scanner: "\<not> list_ex is_NewHtml5Qrcode (populate i ds)"
  by (induction ds arbitrary: i) auto

text \<open>
  Claim C3, as the code has it. When the library has loaded and the enumeration gives a
  non-empty device list, \<^verbatim>\<open>initializeCamera\<close> sets \<^verbatim>\<open>AppState.deviceId\<close> to the id saved in
  the cookie \<^verbatim>\<open>selectedCamera\<close> if that id is a non-empty string and is the id of an
  enumerated device, and to the id of the first enumerated device otherwise; the dropdown is
  set to the same id.
\<close>

theorem initializeCamera_selects_device:
  assumes "\<not> cameraInitialized st" and "script_result env = ScriptLoads"
    and "getCameras_result env = CamerasResolve (Some (first # others))"
  shows "(\<forall>saved. getCookie ''selectedCamera'' (document_cookie env) = Some saved
                  \<and> saved \<noteq> [] \<and> saved \<in> id' ` set (first # others)
            \<longrightarrow> deviceId (fst (initializeCamera env st)) = Some saved)
       \<and> ((\<nexists>saved. getCookie ''selectedCamera'' (document_cookie env) = Some saved
                  \<and> saved \<noteq> [] \<and> saved \<in> id' ` set (first # others))
            \<longrightarrow> deviceId (fst (initializeCamera env st)) = Some (id' first))
       \<and> (\<exists>v. deviceId (fst (initializeCamera env st)) = Some v
              \<and> SetDropdownValue v \<in> set (snd (initializeCamera env st)))"
  using assms
  by (auto simp: initializeCamera_def getCameras_then_def Let_def list_ex_iff
        split: option.splits)

theorem initializeCamera_selects_device_witness:
  "deviceId (fst (initializeCamera saved_cam2 AppState)) = Some ''cam2''
   \<and> deviceId (fst (initializeCamera first_visit AppState)) = Some ''cam1''
   \<and> (\<exists>v. deviceId (fst (initializeCamera saved_cam2 AppState)) = Some v
          \<and> SetDropdownValue v \<in> set (snd (initializeCamera saved_cam2 AppState)))"
  using initializeCamera_selects_device
          [of AppState saved_cam2 "\<lparr>id' = ''cam1'', label = ''Front''\<rparr>"
              "[\<lparr>id' = ''cam2'', label = []\<rparr>]"]
        initializeCamera_selects_device
          [of AppState first_visit "\<lparr>id' = ''cam1'', label = ''Front''\<rparr>"
              "[\<lparr>id' = ''cam2'', label = []\<rparr>]"]
  by (auto simp add: saved_cam2_def first_visit_def AppState_def two_cameras_def getCookie_def
        trim_def js_whitespace_def startsWith_def substring_def)

text \<open>Claim C3 as stated fails when the saved id is the empty string: it is the id of the
  second device, and the first device is selected.\<close>

theorem initializeCamera_selects_device_counterexample:
  "getCookie ''selectedCamera'' (document_cookie empty_saved_id) = Some []
   \<and> getCameras_result empty_saved_id =
       CamerasResolve (Some [\<lparr>id' = ''cam1'', label = ''Front''\<rparr>, \<lparr>id' = [], label = ''Rear''\<rparr>])
   \<and> deviceId (fst (initializeCamera empty_saved_id AppState)) = Some ''cam1''
   \<and> deviceId (fst (initializeCamera empty_saved_id AppState)) \<noteq> Some []"
  by (simp add: empty_saved_id_def first_visit_def AppState_def initializeCamera_def
        getCameras_then_def getCookie_def trim_def js_whitespace_def startsWith_def
        substring_def Let_def)

text \<open>
  Claim C6, as the code has it. When the library has loaded and the enumeration resolves
  with an empty list, \<^verbatim>\<open>initializeCamera\<close> leaves \<^verbatim>\<open>AppState\<close> as it was, constructs no
  scanner and does not call \<^verbatim>\<open>startScan\<close>. When the enumeration is rejected, the run ends
  with the alert \<^verbatim>\<open>Camera initialization error: <reason>\<close>, with \<^verbatim>\<open>AppState\<close> unchanged and
  no scan started.
\<close>

theorem initializeCamera_without_devices:
  assumes "\<not> cameraInitialized st" and "script_result env = ScriptLoads"
  shows "(getCameras_result env = CamerasResolve (Some []) \<longrightarrow>
            fst (initializeCamera env st) = st
            \<and> \<not> list_ex is_NewHtml5Qrcode (snd (initializeCamera env st))
            \<and> StartScan \<notin> set (snd (initializeCamera env st)))
       \<and> (getCameras_result env = CamerasReject err \<longrightarrow>
            initializeCamera env st =
              (st, [AppendScript ''https://unpkg.com/html5-qrcode'', ScriptLoaded,
                    GetCameras, CamerasRejected,
                    Alert (''Camera initialization error: '' @ err)]))"
  using assms by (simp add: initializeCamera_def getCameras_then_def)

theorem initializeCamera_without_devices_witness:
  "fst (initializeCamera no_cameras AppState) = AppState
   \<and> \<not> list_ex is_NewHtml5Qrcode (snd (initializeCamera no_cameras AppState))
   \<and> StartScan \<notin> set (snd (initializeCamera no_cameras AppState))
   \<and> initializeCamera cameras_rejected AppState =
       (AppState, [AppendScript ''https://unpkg.com/html5-qrcode'', ScriptLoaded,
                   GetCameras, CamerasRejected,
                   Alert ''Camera initialization error: NotFoundError : Requested device not found''])"
  using initializeCamera_without_devices [of AppState no_cameras]
        initializeCamera_without_devices
          [of AppState cameras_rejected "''NotFoundError : Requested device not found''"]
  by (simp add: no_cameras_def cameras_rejected_def first_visit_def AppState_def)

text \<open>Claim C6 as stated fails: on an empty device list the run shows no alert.\<close>

theorem initializeCamera_without_devices_counterexample:
  "getCameras_result no_cameras = CamerasResolve (Some [])
   \<and> initializeCamera no_cameras AppState =
       (AppState, [AppendScript ''https://unpkg.com/html5-qrcode'', ScriptLoaded,
                   GetCameras, CamerasResolved])
   \<and> \<not> list_ex is_Alert (snd (initializeCamera no_cameras AppState))"
  by (simp add: no_cameras_def first_visit_def AppState_def initializeCamera_def
        getCameras_then_def)

lemma initializeCamera_initialized:
  "cameraInitialized st \<Longrightarrow> initializeCamera env st = (st, [StartScan])"
  by (simp add: initializeCamera_def)

lemma initializeCamera_calls_initialized:
  "cameraInitialized st \<Longrightarrow>
     initializeCamera_calls envs st = (st, replicate (length envs) StartScan)"
  by (induction envs) (simp_all add: initializeCamera_initialized Let_def)

text \<open>
  Claim C9. When \<^verbatim>\<open>AppState.cameraInitialized\<close> is set, a call of \<^verbatim>\<open>initializeCamera\<close> only
  calls \<^verbatim>\<open>startScan\<close> and leaves \<^verbatim>\<open>AppState\<close> as it is: no script is appended, no devices
  are enumerated, no scanner is constructed; the same holds for any number of calls one
  after the other. And a call that constructs the scanner sets the flag, so every call
  after it is such a call.
\<close>

theorem initializeCamera_once:
  "(cameraInitialized st \<longrightarrow>
      initializeCamera env st = (st, [StartScan])
      \<and> initializeCamera_calls envs st = (st, replicate (length envs) StartScan))
   \<and> (list_ex is_NewHtml5Qrcode (snd (initializeCamera env st)) \<longrightarrow>
        cameraInitialized (fst (initializeCamera env st)))"
  using populate_no_scanner
  by (auto simp: initializeCamera_initialized initializeCamera_calls_initialized
        initializeCamera_def getCameras_then_def Let_def
        split: script_outcome.splits cameras_outcome.splits option.splits list.splits)

theorem initializeCamera_once_witness:
  "initializeCamera first_visit scan_ready = (scan_ready, [StartScan])
   \<and> initializeCamera_calls [first_visit, no_cameras, bound_cameraId] scan_ready =
       (scan_ready, [StartScan, StartScan, StartScan])
   \<and> cameraInitialized (fst (initializeCamera bound_cameraId AppState))"
  using initializeCamera_once [of scan_ready first_visit "[first_visit, no_cameras, bound_cameraId]"]
        initializeCamera_once [of AppState bound_cameraId]
  by (simp add: scan_ready_def bound_cameraId_def first_visit_def AppState_def
        two_cameras_def initializeCamera_def getCameras_then_def Let_def)


section \<open>The error message and the confirmation message\<close>

text \<open>
  Claim C7, as the code has it. The message shown for a failed request is
  \<^verbatim>\<open>responseJSON.details\<close> if that value is truthy (for a string: non-empty), otherwise
  \<^verbatim>\<open>responseText\<close> if that is truthy, otherwise \<^verbatim>\<open>Errore generico\<close>. A response whose JSON
  body has \<^verbatim>\<open>details\<close> equal to \<^verbatim>\<open>not found\<close> gives exactly \<^verbatim>\<open>not found\<close>. This message
  is the one a run of \<^verbatim>\<open>handleScan\<close> shows when the lookup or the check-in request fails.
\<close>

theorem errorMessage_precedence:
  "(truthy (responseJSON_details x) \<longrightarrow> errorMessage x = responseJSON_details x)
   \<and> (\<not> truthy (responseJSON_details x) \<and> truthy (responseText x) \<longrightarrow>
        errorMessage x = responseText x)
   \<and> (\<not> truthy (responseJSON_details x) \<and> \<not> truthy (responseText x) \<longrightarrow>
        errorMessage x = JStr ''Errore generico'')
   \<and> (responseJSON x = Some obj \<and> map_of obj ''details'' = Some (JStr ''not found'') \<longrightarrow>
        errorMessage x = JStr ''not found'')
   \<and> (html5QrcodeScanner st = Some q \<and> stop_result env = StopResolves
        \<and> (lookup_result env = Inl x \<or> (lookup_result env = Inr r \<and> add_result env = Inl x))
       \<longrightarrow> ErrorMessageShown (errorMessage x) \<in> set (handleScan env st txt))"
  by (auto simp: errorMessage_def js_or_def responseJSON_details_def get_prop_def
        handleScan_cases ajax_error_def)

theorem errorMessage_precedence_witness:
  "errorMessage not_found = JStr ''not found''
   \<and> errorMessage \<lparr>responseJSON = None, responseText = JStr ''Bad Gateway''\<rparr>
       = JStr ''Bad Gateway''
   \<and> errorMessage \<lparr>responseJSON = None, responseText = JUndefined\<rparr>
       = JStr ''Errore generico''
   \<and> ErrorMessageShown (errorMessage not_found)
       \<in> set (handleScan lookup_fails scan_ready ''XYZ'')"
proof -
  note inst = errorMessage_precedence
                [of not_found "[(''details'', JStr ''not found'')]" scan_ready "''qr-reader''"
                    lookup_fails "\<lparr>reward_due = JBool False\<rparr>" "''XYZ''"]
  have details: "errorMessage not_found = JStr ''not found''"
    using inst by (simp add: not_found_def)
  have shown: "ErrorMessageShown (errorMessage not_found)
                 \<in> set (handleScan lookup_fails scan_ready ''XYZ'')"
    using inst by (simp add: lookup_fails_def scan_ready_def)
  have body: "errorMessage \<lparr>responseJSON = None, responseText = JStr ''Bad Gateway''\<rparr>
                = JStr ''Bad Gateway''"
    using errorMessage_precedence
            [of "\<lparr>responseJSON = None, responseText = JStr ''Bad Gateway''\<rparr>",
             THEN conjunct2, THEN conjunct1]
    by (simp add: responseJSON_details_def)
  have fallback: "errorMessage \<lparr>responseJSON = None, responseText = JUndefined\<rparr>
                    = JStr ''Errore generico''"
    using errorMessage_precedence
            [of "\<lparr>responseJSON = None, responseText = JUndefined\<rparr>",
             THEN conjunct2, THEN conjunct2, THEN conjunct1]
    by (simp add: responseJSON_details_def)
  show ?thesis
    using details shown body fallback by simp
qed

text \<open>Claim C7 as stated fails: a \<^verbatim>\<open>details\<close> field that is present and empty is passed
  over, and the raw body is shown.\<close>

theorem errorMessage_precedence_counterexample:
  \<open>responseJSON empty_details = Some [(''details'', JStr [])]
   \<and> map_of [(''details'', JStr [])] ''details'' = Some (JStr [])
   \<and> errorMessage empty_details = JStr ''{"details":""}''
   \<and> errorMessage empty_details \<noteq> JStr []\<close>
  by (simp add: empty_details_def errorMessage_def js_or_def responseJSON_details_def
        get_prop_def)

text \<open>The run in which both requests succeed: the reward notification is sent exactly when
  \<^verbatim>\<open>reward_due\<close> is truthy, then the confirmation message, then the navigation to the
  customer list.\<close>

lemma handleScan_success_run:
  assumes "html5QrcodeScanner st = Some q" and "stop_result env = StopResolves"
    and "lookup_result env = Inr r" and "add_result env = Inr a"
  shows "handleScan env st txt =
           [ConsoleLog ''Scanned QR Code:'' txt, ScannerStop, StopResolved,
            AjaxGet (''accesses/reward_due_qr/'' @ txt), GetSuccess,
            AjaxPost ''accesses/add'' ''application/json'' (JSON_stringify [(''qr_code'', txt)]),
            PostSuccess] @
           (if truthy (reward_due r) then [SendRewardMessage] else []) @
           [SendMessage (''$Check in di {responseAdd.customer.name} ''
                         @ last_name (customer a) @ '' riuscito!''),
            NavigateTo ''customers'']"
  using assms by (simp add: handleScan_cases add_success_def)

text \<open>
  Claim C5 at its scenario: code \<^verbatim>\<open>ABC123\<close>, the lookup answers \<^verbatim>\<open>reward_due: false\<close>, the
  check-in answers the customer Mario Rossi. The run sends no reward notification, sends one
  confirmation message and then navigates to the customer list; the message holds the last
  name and the literal text \<^verbatim>\<open>{responseAdd.customer.name}\<close> where the first name was meant,
  so it includes neither \<^verbatim>\<open>Mario Rossi\<close> nor \<^verbatim>\<open>Mario\<close>.
\<close>

theorem handleScan_confirmation_evaluation:
  "handleScan checkin_ok scan_ready ''ABC123'' =
     [ConsoleLog ''Scanned QR Code:'' ''ABC123'', ScannerStop, StopResolved,
      AjaxGet ''accesses/reward_due_qr/ABC123'', GetSuccess,
      AjaxPost ''accesses/add'' ''application/json'' (JSON_stringify [(''qr_code'', ''ABC123'')]),
      PostSuccess,
      SendMessage ''$Check in di {responseAdd.customer.name} Rossi riuscito!'',
      NavigateTo ''customers'']
   \<and> \<not> includes_str ''$Check in di {responseAdd.customer.name} Rossi riuscito!'' ''Mario Rossi''
   \<and> \<not> includes_str ''$Check in di {responseAdd.customer.name} Rossi riuscito!'' ''Mario''"
  by (simp add: handleScan_def checkin_ok_def scan_ready_def mario_def add_success_def
        startsWith_def)

section \<open>The cookie written by initializeCamera\<close>

text \<open>
  Claim C1 at its scenario: devices \<^verbatim>\<open>cam1\<close> and \<^verbatim>\<open>cam2\<close>, no cookie. The value the code
  passes to \<^verbatim>\<open>setCookie\<close> is \<^verbatim>\<open>cameraId\<close>, not \<^verbatim>\<open>AppState.deviceId\<close>. With no binding of
  \<^verbatim>\<open>cameraId\<close> the run selects \<^verbatim>\<open>cam1\<close>, then fails with a \<^verbatim>\<open>ReferenceError\<close> that is
  alerted: no cookie is written, no scanner is constructed and no scan is started. With
  \<^verbatim>\<open>cameraId\<close> bound to \<^verbatim>\<open>old\<close> the cookie written holds \<^verbatim>\<open>old\<close>, and \<^verbatim>\<open>getCookie\<close> reads
  \<^verbatim>\<open>old\<close> from it. The listener of the dropdown does the same when the user chooses
  \<^verbatim>\<open>cam2\<close>.
\<close>

theorem initializeCamera_cookie_evaluation:
  "initializeCamera first_visit AppState =
     (\<lparr>cameraInitialized = False, html5QrcodeScanner = None, deviceId = Some ''cam1''\<rparr>,
      [AppendScript ''https://unpkg.com/html5-qrcode'', ScriptLoaded, GetCameras,
       CamerasResolved,
       AppendOption ''cam1'' ''Front'', AppendOption ''cam2'' ''Camera 2'',
       SetDropdownValue ''cam1'',
       Alert ''Camera initialization error: ReferenceError: cameraId is not defined''])
   \<and> \<not> list_ex is_SetDocumentCookie (snd (initializeCamera first_visit AppState))
   \<and> initializeCamera bound_cameraId AppState =
       (\<lparr>cameraInitialized = True, html5QrcodeScanner = Some ''qr-reader'',
          deviceId = Some ''cam1''\<rparr>,
        [AppendScript ''https://unpkg.com/html5-qrcode'', ScriptLoaded, GetCameras,
         CamerasResolved,
         AppendOption ''cam1'' ''Front'', AppendOption ''cam2'' ''Camera 2'',
         SetDropdownValue ''cam1'',
         SetDocumentCookie ''selectedCamera=old;expires=Sat, 31 Jan 1970 00:00:00 GMT;path=/'',
         AddChangeListener, NewHtml5Qrcode ''qr-reader'', StartScan])
   \<and> getCookie ''selectedCamera''
         ''selectedCamera=old;expires=Sat, 31 Jan 1970 00:00:00 GMT;path=/'' = Some ''old''
   \<and> dropdown_change first_visit scan_ready ''cam2'' =
        (scan_ready\<lparr>deviceId := Some ''cam2''\<rparr>, [Uncaught (ReferenceError ''cameraId'')])
   \<and> dropdown_change bound_cameraId scan_ready ''cam2'' =
        (scan_ready\<lparr>deviceId := Some ''cam2''\<rparr>,
         [SetDocumentCookie
            ''selectedCamera=old;expires=Sat, 31 Jan 1970 00:00:00 GMT;path=/''])"
  by (simp add: initializeCamera_def getCameras_then_def first_visit_def bound_cameraId_def
        AppState_def two_cameras_def getCookie_def trim_def js_whitespace_def startsWith_def
        substring_def ReferenceError_text_def decimal.simps setCookie_def utc_30_days_def
        dropdown_change_def scan_ready_def Let_def)


end
